theory Spec2Isabelle
  imports Complex_Main
begin

section \<open>DeepGalaxy: the SM-2 scheduler of \<open>src/app.js\<close>\<close>

text \<open>
  The theory embeds the scheduling core of the first program of \<open>src/app.js\<close>
  (\<open>Logic.calculateSM2\<close>, \<open>Logic.getUserStats\<close>, \<open>Logic.calculateCardStats\<close>,
  \<open>Logic.getDueCards\<close> and \<open>App.submitReview\<close>).

  Conventions of the embedding.
  \<^item> A JavaScript Number is the \<open>real\<close> that the double denotes. The arithmetic of
    \<open>calculateSM2\<close>, \<open>getUserStats\<close> and \<open>submitReview\<close> is the arithmetic of doubles: every
    literal and every result of \<open>+\<close>, \<open>-\<close>, \<open>*\<close> and \<open>/\<close> is rounded to the nearest double
    (\<open>double\<close> below). \<open>NaN\<close>, the infinities, overflow and subnormal numbers are outside
    the model. \<open>Math.exp\<close>, \<open>Math.log2\<close> and \<open>Math.log10\<close> are approximations that the
    runtime chooses; \<open>calculateCardStats\<close>, the only function that calls them, is modelled
    in exact arithmetic.
  \<^item> The repetition count \<open>n\<close> and \<open>totalSuccesses\<close> are counters that start at 0 and are
    only reset or incremented: they are \<open>nat\<close>. The interval \<open>I\<close> and the quality \<open>q\<close> are \<open>int\<close>.
  \<^item> A Date, and the ISO string the code stores for it, is its time value: the number
    of milliseconds since the epoch, in UTC (\<open>int\<close>). The time zone of the runtime is a
    parameter of the functions that work with local calendar fields.
  \<^item> A field that may be missing (\<open>undefined\<close> or \<open>null\<close>) has an \<open>option\<close> type.
  \<^item> Record fields cannot be called \<open>n\<close>, \<open>I\<close>, \<open>EF\<close> or \<open>q\<close> without taking these names
    away from variables, so they carry the name of their object as a prefix.
\<close>

subsection \<open>Data\<close>

text \<open>The scheduling fields of a card object (its text and images play no role).\<close>

record card =
  card_id :: nat
  deckId :: nat
  card_n :: nat
  card_I :: int
  card_EF :: real
  nextReviewAt :: "int option"
  lastReviewAt :: "int option"
  totalSuccesses :: "nat option"

text \<open>The object \<open>{ n, I, EF }\<close> returned by \<open>calculateSM2\<close>.\<close>

record sm2 =
  sm2_n :: nat
  sm2_I :: int
  sm2_EF :: real

text \<open>A review log entry, as \<open>submitReview\<close> builds it (\<open>log_EF\<close> is its field \<open>EF\<close>).\<close>

record log_entry =
  log_cardId :: nat
  reviewedAt :: int
  log_q :: int
  intervalBefore :: int
  efBefore :: real
  intervalAfter :: int
  log_EF :: real

text \<open>The object \<open>{ forgetRate, total }\<close> that \<open>getUserStats\<close> resolves to.\<close>

record userStats =
  forgetRate :: real
  total :: nat

text \<open>
  The object returned by \<open>calculateCardStats\<close>. Its two return statements build objects
  with different fields: \<open>retention\<close> exists only in the first, \<open>retentionProbability\<close>
  and \<open>retentionScore\<close> only in the second; a field that the object does not have reads
  as \<open>undefined\<close>, here \<open>None\<close>.
\<close>

record cardStats =
  retention :: "real option"
  retentionProbability :: "real option"
  forgetRisk :: real
  retentionScore :: "real option"
  priorityScore :: real

subsection \<open>JavaScript primitives\<close>

text \<open>\<open>Math.round\<close> rounds to the nearest integer, a tie towards plus infinity.\<close>

definition Math_round :: "real \<Rightarrow> int" where
  "Math_round x = \<lfloor>x + 1 / 2\<rfloor>"

text \<open>
  A comparison of a Number with \<open>undefined\<close> is false, whichever way it is written.
\<close>

fun js_lt :: "real option \<Rightarrow> real \<Rightarrow> bool" where
  "js_lt None y = False"
| "js_lt (Some x) y = (x < y)"

fun js_gt :: "real option \<Rightarrow> real \<Rightarrow> bool" where
  "js_gt None y = False"
| "js_gt (Some x) y = (x > y)"

text \<open>
  Doubles. \<open>rne\<close> rounds a real to the nearest integer, a tie to the even one. \<open>double x\<close>
  is the double nearest to \<open>x\<close>, a tie to the one with an even significand: for
  \<open>2\<^sup>e \<le> \<bar>x\<bar> < 2\<^sup>e\<^sup>+\<^sup>1\<close> the doubles are the multiples of \<open>2\<^sup>e\<^sup>-\<^sup>5\<^sup>2\<close>. The four
  operations of IEEE 754 return the double nearest to the exact result.
\<close>

definition rne :: "real \<Rightarrow> int" where
  "rne x = (let f = \<lfloor>x\<rfloor>; r = x - of_int f in
            if r < 1 / 2 then f
            else if r > 1 / 2 then f + 1
            else if even f then f else f + 1)"

definition double :: "real \<Rightarrow> real" where
  "double x = (if x = 0 then 0
               else let p = 2 powr (of_int \<lfloor>log 2 \<bar>x\<bar>\<rfloor> - 52)
                    in of_int (rne (x / p)) * p)"

definition fadd :: "real \<Rightarrow> real \<Rightarrow> real" where
  "fadd x y = double (x + y)"

definition fsub :: "real \<Rightarrow> real \<Rightarrow> real" where
  "fsub x y = double (x - y)"

definition fmul :: "real \<Rightarrow> real \<Rightarrow> real" where
  "fmul x y = double (x * y)"

definition fdiv :: "real \<Rightarrow> real \<Rightarrow> real" where
  "fdiv x y = double (x / y)"

text \<open>
  Dates. \<open>864e5\<close> is the number of milliseconds of a day. The time zone of the runtime
  gives the offset of local time from UTC, in milliseconds: \<open>tzaUTC z t\<close> at the instant
  \<open>t\<close>, \<open>tzaLocal z l\<close> for the local time \<open>l\<close> (the two readings of \<open>LocalTZA\<close> in
  ECMAScript). \<open>DateFromTime\<close> is the day of the month of a local time, in the Gregorian
  calendar. \<open>d.getDate()\<close> is the day of the month of \<open>d\<close> in local time. \<open>d.setDate(k)\<close>
  works on the local time of \<open>d\<close>: it keeps the month and the time of day and moves to day
  \<open>k\<close> counted from the first of that month, days outside the month running into the
  neighbouring months, so it shifts the local time by \<open>k - d.getDate()\<close> whole days; the
  result is taken back to UTC with the offset of the new local time.
\<close>

definition msPerDay :: int where
  "msPerDay = 86400000"

record zone =
  tzaUTC :: "int \<Rightarrow> int"
  tzaLocal :: "int \<Rightarrow> int"

definition LocalTime :: "zone \<Rightarrow> int \<Rightarrow> int" where
  "LocalTime z t = t + tzaUTC z t"

definition UTC :: "zone \<Rightarrow> int \<Rightarrow> int" where
  "UTC z l = l - tzaLocal z l"

definition DateFromTime :: "int \<Rightarrow> int" where
  "DateFromTime l =
     (let day = l div msPerDay + 719468;
          doe = day mod 146097;
          yoe = (doe - doe div 1460 + doe div 36524 - doe div 146096) div 365;
          doy = doe - (365 * yoe + yoe div 4 - yoe div 100);
          mp = (5 * doy + 2) div 153
      in doy - (153 * mp + 2) div 5 + 1)"

definition getDate :: "zone \<Rightarrow> int \<Rightarrow> int" where
  "getDate z d = DateFromTime (LocalTime z d)"

definition setDate :: "zone \<Rightarrow> int \<Rightarrow> int \<Rightarrow> int" where
  "setDate z d k = UTC z (LocalTime z d + (k - DateFromTime (LocalTime z d)) * msPerDay)"

subsection \<open>\<open>Logic.calculateSM2\<close>\<close>

text \<open>
  \<open>I\<close> and \<open>5 - q\<close> are integers, which doubles hold exactly (below \<open>2\<^sup>5\<^sup>3\<close>).
\<close>

definition calculateSM2 :: "card \<Rightarrow> int \<Rightarrow> sm2" where
  "calculateSM2 c q =
     (let n = card_n c; I = card_I c; EF = card_EF c;
          (nextN, nextI) =
            (if q < 3 then (0, 1)
             else (let nextN = n + 1 in
                   if nextN = 1 then (nextN, 1)
                   else if nextN = 2 then (nextN, 6)
                   else (nextN, Math_round (fmul (real_of_int I) EF))));
          delta = real_of_int (5 - q);
          nextEF = fadd EF (fsub (double (1 / 10))
                     (fmul delta (fadd (double (8 / 100)) (fmul delta (double (2 / 100))))));
          nextEF = (if nextEF < double (13 / 10) then double (13 / 10) else nextEF)
      in \<lparr>sm2_n = nextN, sm2_I = nextI, sm2_EF = nextEF\<rparr>)"

subsection \<open>\<open>Logic.getUserStats\<close>\<close>

text \<open>
  The function reads the clock once (\<open>now\<close>), moves it back 30 calendar days with
  \<open>setDate\<close> and asks the \<open>reviewedAt\<close> index of the log store for every entry at or after
  that instant (\<open>IDBKeyRange.lowerBound\<close>: the range has no upper end). The store is
  \<open>Some logs\<close>, or \<open>None\<close> when the request fails (\<open>req.onerror\<close>). The rate is a
  quotient of doubles.
\<close>

definition getUserStats :: "zone \<Rightarrow> int \<Rightarrow> log_entry list option \<Rightarrow> userStats" where
  "getUserStats z now store =
     (let cutoff = setDate z now (getDate z now - 30) in
      case store of
        None \<Rightarrow> \<lparr>forgetRate = 0, total = 0\<rparr>
      | Some logs \<Rightarrow>
          (let res = filter (\<lambda>l. cutoff \<le> reviewedAt l) logs in
           if res = [] then \<lparr>forgetRate = 0, total = 0\<rparr>
           else \<lparr>forgetRate = fdiv (real (length (filter (\<lambda>l. log_q l < 3) res))) (real (length res)),
                 total = length res\<rparr>))"

subsection \<open>\<open>Logic.calculateCardStats\<close>\<close>

text \<open>
  \<open>now\<close> is the clock reading of the call. \<open>card.totalSuccesses || card.n\<close> takes \<open>card.n\<close>
  when \<open>totalSuccesses\<close> is missing and also when it is 0. The parameter
  \<open>userForgetRate\<close> is not used by the body.
\<close>

definition calculateCardStats :: "int \<Rightarrow> card \<Rightarrow> real \<Rightarrow> cardStats" where
  "calculateCardStats now c userForgetRate =
     (if card_n c = 0
      then \<lparr>retention = Some 0, retentionProbability = None, forgetRisk = 1,
            retentionScore = None, priorityScore = 100\<rparr>
      else
        (let lastReview = (case lastReviewAt c of Some l \<Rightarrow> l | None \<Rightarrow> now);
             t = real_of_int (now - lastReview) / real_of_int msPerDay;
             S = max (real_of_int (card_I c) * card_EF c) (1 / 10);
             ret = exp (- t / S);
             risk = 1 - ret;
             successes = (case totalSuccesses c of
                            Some s \<Rightarrow> if s \<noteq> 0 then s else card_n c
                          | None \<Rightarrow> card_n c);
             rScore = min 100 (log 2 (1 + real successes) * card_EF c * 10);
             overdue = (case nextReviewAt c of
                          Some d \<Rightarrow> if now > d then real_of_int (now - d) / real_of_int msPerDay else 0
                        | None \<Rightarrow> 0);
             ps = risk * (5 / 10) + ((1 - rScore / 100) * (3 / 10)) + (1 / card_EF c) * (1 / 10)
                  + log 10 (1 + overdue) * (1 / 10)
         in \<lparr>retention = None, retentionProbability = Some ret, forgetRisk = risk,
             retentionScore = Some rScore, priorityScore = ps\<rparr>))"

subsection \<open>\<open>Logic.getDueCards\<close>\<close>

text \<open>
  Every \<open>new Date()\<close> is a reading of the clock; \<open>clock k\<close> is the \<open>k\<close>-th reading of a
  call: reading 0 is \<open>now\<close>, reading 1 is the one of \<open>getUserStats\<close>, reading \<open>i + 2\<close> is the
  one of \<open>calculateCardStats\<close> for the card at index \<open>i\<close>. The object
  \<open>{ ...c, ...stats }\<close> is the pair of the card and its statistics: the filter and the sort
  read \<open>nextReviewAt\<close>, which only the card has, and \<open>priorityScore\<close>, which the statistics
  always override. \<open>Array.prototype.sort\<close> is a stable sort; with the comparator
  \<open>b.priorityScore - a.priorityScore\<close> it sorts by the negated score.
\<close>

definition isDue :: "int \<Rightarrow> card \<times> cardStats \<Rightarrow> bool" where
  "isDue now cs =
     (case nextReviewAt (fst cs) of
        None \<Rightarrow> True
      | Some d \<Rightarrow> d \<le> now \<or> priorityScore (snd cs) \<ge> 6 / 10)"

definition getDueCards ::
  "zone \<Rightarrow> (nat \<Rightarrow> int) \<Rightarrow> card list \<Rightarrow> log_entry list option \<Rightarrow> (card \<times> cardStats) list" where
  "getDueCards z clock allCards store =
     (let now = clock 0;
          fr = forgetRate (getUserStats z (clock 1) store);
          withP = map (\<lambda>(i, c). (c, calculateCardStats (clock (i + 2)) c fr)) (enumerate 0 allCards);
          due = filter (isDue now) withP
      in sort_key (\<lambda>cs. - priorityScore (snd cs)) due)"

subsection \<open>\<open>App.submitReview\<close>\<close>

text \<open>The table \<open>qMap\<close> from the four grade buttons to SM-2 qualities.\<close>

definition qMap :: "nat \<rightharpoonup> int" where
  "qMap = [1 \<mapsto> 1, 2 \<mapsto> 3, 3 \<mapsto> 4, 4 \<mapsto> 5]"

text \<open>The locals \<open>eMult\<close> and \<open>rMult\<close>, as functions of what they are computed from.\<close>

definition eMult :: "userStats \<Rightarrow> real" where
  "eMult us =
     (if forgetRate us > double (35 / 100) then double (9 / 10)
      else if forgetRate us < double (15 / 100) then double (11 / 10)
      else 1)"

definition rMult :: "cardStats \<Rightarrow> real" where
  "rMult cs =
     (if js_lt (retentionScore cs) 40 then double (8 / 10)
      else if js_gt (retentionScore cs) 80 then double (12 / 10)
      else 1)"

text \<open>
  The body of \<open>submitReview\<close> once \<open>q\<close> is known, for the card \<open>c\<close> that is current in the
  study queue. Clock readings: 0 for the log entry, 1 inside \<open>getUserStats\<close>, 2 inside
  \<open>calculateCardStats\<close>, 3 for \<open>now\<close> and 4 for \<open>next\<close>. The result is the card handed to
  \<open>db.put\<close> and the log entry handed to \<open>db.add\<close>.
\<close>

definition submitReview_body ::
  "zone \<Rightarrow> (nat \<Rightarrow> int) \<Rightarrow> log_entry list option \<Rightarrow> card \<Rightarrow> int \<Rightarrow> card \<times> log_entry" where
  "submitReview_body z clock store c q =
     (let us = getUserStats z (clock 1) store;
          cs = calculateCardStats (clock 2) c (forgetRate us);
          s = calculateSM2 c q;
          efNew = max (fmul (sm2_EF s) (eMult us)) (double (13 / 10));
          iNew = (if sm2_n s > 2 \<and> q \<ge> 3
                  then Math_round (fmul (fmul (real_of_int (card_I c)) efNew) (rMult cs))
                  else if q < 3 then 1
                  else sm2_I s);
          now = clock 3;
          next = setDate z (clock 4) (getDate z now + iNew)
      in (c\<lparr>card_n := sm2_n s, card_I := iNew, card_EF := efNew,
            nextReviewAt := Some next, lastReviewAt := Some now,
            totalSuccesses :=
              (if q \<ge> 3 then Some ((case totalSuccesses c of Some k \<Rightarrow> k | None \<Rightarrow> 0) + 1)
               else totalSuccesses c)\<rparr>,
          \<lparr>log_cardId = card_id c, reviewedAt = clock 0, log_q = q,
            intervalBefore = card_I c, efBefore = card_EF c,
            intervalAfter = iNew, log_EF = efNew\<rparr>))"

text \<open>
  \<open>submitReview\<close> is called by the four grade buttons with 1, 2, 3 or 4. For any other
  argument \<open>qMap[uiGrade]\<close> is \<open>undefined\<close> and the ease factor becomes \<open>NaN\<close>, which the
  model does not have: it answers \<open>None\<close> there.
\<close>

definition submitReview ::
  "zone \<Rightarrow> (nat \<Rightarrow> int) \<Rightarrow> log_entry list option \<Rightarrow> card \<Rightarrow> nat \<Rightarrow> (card \<times> log_entry) option" where
  "submitReview z clock store c uiGrade =
     (case qMap uiGrade of
        None \<Rightarrow> None
      | Some q \<Rightarrow> Some (submitReview_body z clock store c q))"

subsection \<open>Example data\<close>

text \<open>
  \<open>newCard\<close> has the scheduling fields that \<open>App.saveCard\<close> gives a card it creates.
  \<open>matureCard\<close> has had two successful repetitions in a row and fifteen successes in all.
  \<open>sampleLogs\<close> is a log store read on day 100 of \<open>sampleClock\<close>: its first entry is older
  than 30 days, two of the other five are lapses. \<open>utcZone\<close> is the zone of UTC. In
  \<open>dstZone\<close> local time is an hour ahead of UTC until noon UTC of day 100, when the clocks
  are set back an hour. \<open>sampleClock\<close> advances by a millisecond from one reading to
  the next, \<open>frozenClock\<close> gives the same instant at every reading. \<open>lapsedCard\<close> has
  lapsed at its last review and is scheduled for day 200. \<open>sentinel\<close> is the object of the
  first return statement of \<open>calculateCardStats\<close>. \<open>card75\<close> has the interval 75, and
  its ease factor is the double nearest to 2.42, which is a little less than 2.42.
  \<open>card500\<close> has the interval 500 and the ease factor 2.75.
\<close>

definition newCard :: card where
  "newCard = \<lparr>card_id = 1, deckId = 1, card_n = 0, card_I = 0, card_EF = 5 / 2,
     nextReviewAt = None, lastReviewAt = None, totalSuccesses = Some 0\<rparr>"

definition matureCard :: card where
  "matureCard = \<lparr>card_id = 2, deckId = 1, card_n = 2, card_I = 6, card_EF = 5 / 2,
     nextReviewAt = Some 0, lastReviewAt = Some 0, totalSuccesses = Some 15\<rparr>"

definition mkLog :: "int \<Rightarrow> int \<Rightarrow> log_entry" where
  "mkLog t q = \<lparr>log_cardId = 2, reviewedAt = t, log_q = q, intervalBefore = 1,
     efBefore = 5 / 2, intervalAfter = 1, log_EF = 5 / 2\<rparr>"

definition sampleLogs :: "log_entry list" where
  "sampleLogs = [mkLog 0 1, mkLog (75 * msPerDay) 1, mkLog (80 * msPerDay) 1,
     mkLog (90 * msPerDay) 4, mkLog (95 * msPerDay) 5, mkLog (99 * msPerDay) 3]"

definition utcZone :: zone where
  "utcZone = \<lparr>tzaUTC = (\<lambda>t. 0), tzaLocal = (\<lambda>l. 0)\<rparr>"

definition dstZone :: zone where
  "dstZone = \<lparr>tzaUTC = (\<lambda>t. if t < 100 * msPerDay + 43200000 then 3600000 else 0),
               tzaLocal = (\<lambda>l. if l < 100 * msPerDay + 46800000 then 3600000 else 0)\<rparr>"

definition sampleClock :: "nat \<Rightarrow> int" where
  "sampleClock k = 100 * msPerDay + int k"

definition frozenClock :: "nat \<Rightarrow> int" where
  "frozenClock k = 100 * msPerDay"

definition lapsedCard :: card where
  "lapsedCard = \<lparr>card_id = 3, deckId = 1, card_n = 0, card_I = 1, card_EF = 2,
     nextReviewAt = Some (200 * msPerDay), lastReviewAt = Some (99 * msPerDay), totalSuccesses = Some 7\<rparr>"

definition card75 :: card where
  "card75 = \<lparr>card_id = 4, deckId = 1, card_n = 5, card_I = 75,
     card_EF = 1362338887279575 / 2 ^ 49,
     nextReviewAt = Some (90 * msPerDay), lastReviewAt = Some (15 * msPerDay), totalSuccesses = Some 5\<rparr>"


definition sentinel :: cardStats where
  "sentinel = \<lparr>retention = Some 0, retentionProbability = None, forgetRisk = 1,
            retentionScore = None, priorityScore = 100\<rparr>"

section \<open>Properties\<close>

subsection \<open>Doubles\<close>

lemma double_0: "double 0 = 0"
  by (simp add: double_def)

lemma double_exp:
  assumes "x \<noteq> 0" and "2 powr of_int e \<le> \<bar>x\<bar>" and "\<bar>x\<bar> < 2 powr (of_int e + 1)"
  shows "double x = of_int (rne (x / 2 powr (of_int e - 52))) * 2 powr (of_int e - 52)"
proof -
  have "\<bar>x\<bar> > 0" using assms(1) by simp
  then have "\<lfloor>log 2 \<bar>x\<bar>\<rfloor> = e"
    using assms(2,3) by (subst floor_log_eq_powr_iff) simp_all
  then show ?thesis
    using assms(1) by (simp add: double_def Let_def)
qed

text \<open>The doubles of magnitude \<open>2\<^sup>k\<close> to \<open>2\<^sup>k\<^sup>+\<^sup>1\<close>, for \<open>k \<le> 52\<close>.\<close>

lemma double_big:
  assumes "2 ^ k \<le> \<bar>x\<bar>" and "\<bar>x\<bar> < 2 * 2 ^ k" and "k \<le> 52"
  shows "double x = of_int (rne (x * 2 ^ (52 - k))) / 2 ^ (52 - k)"
proof -
  have "(0::real) < 2 ^ k" by simp
  with assms(1) have "0 < \<bar>x\<bar>" by linarith
  then have nz: "x \<noteq> 0" by simp
  have a: "2 powr of_int (int k) = (2::real) ^ k"
    by (simp add: powr_realpow)
  have b: "2 powr (of_int (int k) + 1) = (2::real) * 2 ^ k"
    by (simp add: powr_add powr_realpow)
  have c: "2 powr (of_int (int k) - 52) = 1 / (2::real) ^ (52 - k)"
  proof -
    have "real_of_int (int k) - 52 = - real (52 - k)" using assms(3) by simp
    then have "2 powr (real_of_int (int k) - 52) = 2 powr (- real (52 - k))" by (rule arg_cong)
    also have "\<dots> = 1 / 2 powr real (52 - k)" by (rule powr_minus_divide)
    also have "\<dots> = 1 / (2::real) ^ (52 - k)" by (simp only: powr_realpow zero_less_numeral)
    finally show ?thesis .
  qed
  from double_exp [OF nz, of "int k"] assms(1,2) a b
  have "double x = of_int (rne (x / 2 powr (of_int (int k) - 52))) * 2 powr (of_int (int k) - 52)"
    by simp
  then show ?thesis by (simp only: c) simp
qed

text \<open>The doubles of magnitude \<open>2\<^sup>-\<^sup>k\<close> to \<open>2\<^sup>1\<^sup>-\<^sup>k\<close>.\<close>

lemma double_small:
  assumes "1 \<le> \<bar>x\<bar> * 2 ^ k" and "\<bar>x\<bar> * 2 ^ k < 2"
  shows "double x = of_int (rne (x * 2 ^ (52 + k))) / 2 ^ (52 + k)"
proof -
  have nz: "x \<noteq> 0" using assms(1) by auto
  have a: "2 powr of_int (- int k) = 1 / (2::real) ^ k"
    by (simp add: powr_minus_divide powr_realpow)
  have b: "2 powr (of_int (- int k) + 1) = 2 / (2::real) ^ k"
  proof -
    have "2 powr (of_int (- int k) + 1) = (2::real) powr (1 - real k)" by simp
    also have "\<dots> = 2 powr 1 / 2 powr real k" by (rule powr_diff)
    also have "\<dots> = 2 / (2::real) ^ k" by (simp add: powr_realpow)
    finally show ?thesis .
  qed
  have c: "2 powr (of_int (- int k) - 52) = 1 / (2::real) ^ (52 + k)"
  proof -
    have "real_of_int (- int k) - 52 = - real (52 + k)" by simp
    then have "2 powr (real_of_int (- int k) - 52) = 2 powr (- real (52 + k))" by (rule arg_cong)
    also have "\<dots> = 1 / 2 powr real (52 + k)" by (rule powr_minus_divide)
    also have "\<dots> = 1 / (2::real) ^ (52 + k)" by (simp only: powr_realpow zero_less_numeral)
    finally show ?thesis .
  qed
  have l: "2 powr of_int (- int k) \<le> \<bar>x\<bar>"
    unfolding a using assms(1) by (simp add: field_simps)
  have u: "\<bar>x\<bar> < 2 powr (of_int (- int k) + 1)"
    unfolding b using assms(2) by (simp add: field_simps)
  from double_exp [OF nz l u]
  show ?thesis by (simp only: c) simp
qed

lemma rne_bounds: "\<lfloor>x\<rfloor> \<le> rne x \<and> rne x \<le> \<lfloor>x\<rfloor> + 1"
  by (simp add: rne_def Let_def)

text \<open>A quotient between 0 and 1 rounds to a double between 0 and 1.\<close>

lemma double_unit:
  assumes "0 \<le> x" and "x \<le> 1"
  shows "0 \<le> double x \<and> double x \<le> 1"
proof (cases "x = 0 \<or> x = 1")
  case True
  then show ?thesis
  proof
    assume "x = 0" then show ?thesis by (simp add: double_0)
  next
    assume "x = 1"
    moreover have "double 1 = 1"
      by (subst double_big [where k = 0]) (simp_all add: rne_def Let_def)
    ultimately show ?thesis by simp
  qed
next
  case False
  with assms have x: "0 < x" "x < 1" by auto
  define e where "e = \<lfloor>log 2 \<bar>x\<bar>\<rfloor>"
  define p :: real where "p = 2 powr (of_int e - 52)"
  have p: "0 < p" by (simp add: p_def)
  have d: "double x = of_int (rne (x / p)) * p"
    using x by (simp add: double_def Let_def e_def p_def)
  have "log 2 x < 0" using x by simp
  then have e: "e \<le> - 1" unfolding e_def using x by (simp add: floor_le_iff)
  have pp: "2 powr 53 * p = 2 powr (of_int e + 1)"
    unfolding p_def powr_add [symmetric]
    by (rule arg_cong [of _ _ "(powr) 2"]) simp
  have p53: "(2::real) powr 53 = 2 ^ 53"
    by simp
  have "x < 2 powr (of_int e + 1)"
    using x floor_log_eq_powr_iff [of x 2 e] by (simp add: e_def)
  then have "x < 2 powr 53 * p"
    by (simp only: pp)
  then have "x / p < 2 powr 53" using p by (simp add: field_simps)
  then have "x / p < 2 ^ 53" by (simp only: p53)
  then have "\<lfloor>x / p\<rfloor> < 2 ^ 53" by (simp add: floor_less_iff)
  with rne_bounds [of "x / p"] have r: "rne (x / p) \<le> 2 ^ 53" by linarith
  have "0 \<le> x / p" using x p by simp
  then have "0 \<le> \<lfloor>x / p\<rfloor>" by simp
  with rne_bounds [of "x / p"] have r0: "0 \<le> rne (x / p)" by linarith
  from r have "real_of_int (rne (x / p)) \<le> 2 ^ 53"
    by (metis of_int_le_iff of_int_numeral of_int_power)
  then have "double x \<le> 2 ^ 53 * p"
    unfolding d using p by (simp add: mult_right_mono)
  then have "double x \<le> 2 powr (of_int e + 1)"
    by (simp only: p53 [symmetric] pp)
  also have "\<dots> \<le> 2 powr 0"
    using e by (intro powr_mono) simp_all
  finally have "double x \<le> 1" by simp
  moreover have "0 \<le> double x"
    unfolding d using r0 p by simp
  ultimately show ?thesis by simp
qed

subsection \<open>Evaluations\<close>

text \<open>
  The doubles of the literals of the code, and the results of the operations of doubles at
  the inputs of the examples below.
\<close>

lemma fl_01: "double (7 / 20) = 3152519739159347 / 9007199254740992"
  by (subst double_small [where k = 2]) (simp_all add: rne_def Let_def)

lemma fl_02: "double (3 / 20) = 5404319552844595 / 36028797018963968"
  by (subst double_small [where k = 3]) (simp_all add: rne_def Let_def)

lemma fl_03: "double (9 / 10) = 8106479329266893 / 9007199254740992"
  by (subst double_small [where k = 1]) (simp_all add: rne_def Let_def)

lemma fl_04: "double (11 / 10) = 2476979795053773 / 2251799813685248"
  by (subst double_big [where k = 0]) (simp_all add: rne_def Let_def)

lemma fl_05: "double (4 / 5) = 3602879701896397 / 4503599627370496"
  by (subst double_small [where k = 1]) (simp_all add: rne_def Let_def)

lemma fl_06: "double (6 / 5) = 5404319552844595 / 4503599627370496"
  by (subst double_big [where k = 0]) (simp_all add: rne_def Let_def)

lemma fl_07: "double (13 / 10) = 5854679515581645 / 4503599627370496"
  by (subst double_big [where k = 0]) (simp_all add: rne_def Let_def)

lemma fl_08: "double (2 / 5) = 3602879701896397 / 9007199254740992"
  by (subst double_small [where k = 2]) (simp_all add: rne_def Let_def)

lemma fl_09: "double (1 / 50) = 5764607523034235 / 288230376151711744"
  by (subst double_small [where k = 6]) (simp_all add: rne_def Let_def)

lemma fl_10: "fmul 0 (5764607523034235 / 288230376151711744) = 0"
  by (simp add: fmul_def double_0)

lemma fl_11: "double (2 / 25) = 5764607523034235 / 72057594037927936"
  by (subst double_small [where k = 4]) (simp_all add: rne_def Let_def)

lemma fl_12: "fadd (5764607523034235 / 72057594037927936) 0 = 5764607523034235 / 72057594037927936"
  unfolding fadd_def
  by (subst double_small [where k = 4]) (simp_all add: rne_def Let_def)

lemma fl_13: "fmul 0 (5764607523034235 / 72057594037927936) = 0"
  by (simp add: fmul_def double_0)

lemma fl_14: "double (1 / 10) = 3602879701896397 / 36028797018963968"
  by (subst double_small [where k = 4]) (simp_all add: rne_def Let_def)

lemma fl_15: "fsub (3602879701896397 / 36028797018963968) 0 = 3602879701896397 / 36028797018963968"
  unfolding fsub_def
  by (subst double_small [where k = 4]) (simp_all add: rne_def Let_def)

lemma fl_16: "fadd (5 / 2) (3602879701896397 / 36028797018963968) = 5854679515581645 / 2251799813685248"
  unfolding fadd_def
  by (subst double_big [where k = 1]) (simp_all add: rne_def Let_def)

lemma fl_17: "fmul 6 (5 / 2) = 15"
  unfolding fmul_def
  by (subst double_big [where k = 3]) (simp_all add: rne_def Let_def)

lemma fl_18: "fmul (5854679515581645 / 2251799813685248) (8106479329266893 / 9007199254740992) = 5269211564023481 / 2251799813685248"
  unfolding fmul_def
  by (subst double_big [where k = 1]) (simp_all add: rne_def Let_def)

lemma fl_19: "fmul 6 (5269211564023481 / 2251799813685248) = 3951908673017611 / 281474976710656"
  unfolding fmul_def
  by (subst double_big [where k = 3]) (simp_all add: rne_def Let_def)

lemma fl_20: "fmul (3951908673017611 / 281474976710656) (5404319552844595 / 4503599627370496) = 4742290407621133 / 281474976710656"
  unfolding fmul_def
  by (subst double_big [where k = 4]) (simp_all add: rne_def Let_def)

lemma fl_21: "fdiv 2 5 = 3602879701896397 / 9007199254740992"
  unfolding fdiv_def
  by (subst double_small [where k = 2]) (simp_all add: rne_def Let_def)

lemma fl_22: "fmul 1 (5764607523034235 / 288230376151711744) = 5764607523034235 / 288230376151711744"
  unfolding fmul_def
  by (subst double_small [where k = 6]) (simp_all add: rne_def Let_def)

lemma fl_23: "fadd (5764607523034235 / 72057594037927936) (5764607523034235 / 288230376151711744) = 3602879701896397 / 36028797018963968"
  unfolding fadd_def
  by (subst double_small [where k = 4]) (simp_all add: rne_def Let_def)

lemma fl_24: "fmul 1 (3602879701896397 / 36028797018963968) = 3602879701896397 / 36028797018963968"
  unfolding fmul_def
  by (subst double_small [where k = 4]) (simp_all add: rne_def Let_def)

lemma fl_25: "fsub (3602879701896397 / 36028797018963968) (3602879701896397 / 36028797018963968) = 0"
  by (simp add: fsub_def double_0)

lemma fl_26: "fadd (5 / 2) 0 = 5 / 2"
  unfolding fadd_def
  by (subst double_big [where k = 1]) (simp_all add: rne_def Let_def)

lemma fl_27: "fmul 4 (5764607523034235 / 288230376151711744) = 5764607523034235 / 72057594037927936"
  unfolding fmul_def
  by (subst double_small [where k = 4]) (simp_all add: rne_def Let_def)

lemma fl_28: "fadd (5764607523034235 / 72057594037927936) (5764607523034235 / 72057594037927936) = 5764607523034235 / 36028797018963968"
  unfolding fadd_def
  by (subst double_small [where k = 3]) (simp_all add: rne_def Let_def)

lemma fl_29: "fmul 4 (5764607523034235 / 36028797018963968) = 5764607523034235 / 9007199254740992"
  unfolding fmul_def
  by (subst double_small [where k = 1]) (simp_all add: rne_def Let_def)

lemma fl_30: "fsub (3602879701896397 / 36028797018963968) (5764607523034235 / 9007199254740992) = - (607985949695017 / 1125899906842624)"
  unfolding fsub_def
  by (subst double_small [where k = 1]) (simp_all add: rne_def Let_def)

lemma fl_31: "fadd (5 / 2) (- (607985949695017 / 1125899906842624)) = 2206763817411543 / 1125899906842624"
  unfolding fadd_def
  by (subst double_big [where k = 0]) (simp_all add: rne_def Let_def)

lemma fl_32: "fmul 75 (1362338887279575 / 562949953421312) = 363 / 2"
  unfolding fmul_def
  by (subst double_big [where k = 7]) (simp_all add: rne_def Let_def)

lemma fl_33: "fmul 2 (5764607523034235 / 288230376151711744) = 5764607523034235 / 144115188075855872"
  unfolding fmul_def
  by (subst double_small [where k = 5]) (simp_all add: rne_def Let_def)

lemma fl_34: "fadd (5764607523034235 / 72057594037927936) (5764607523034235 / 144115188075855872) = 1080863910568919 / 9007199254740992"
  unfolding fadd_def
  by (subst double_small [where k = 4]) (simp_all add: rne_def Let_def)

lemma fl_35: "fmul 2 (1080863910568919 / 9007199254740992) = 1080863910568919 / 4503599627370496"
  unfolding fmul_def
  by (subst double_small [where k = 3]) (simp_all add: rne_def Let_def)

lemma fl_36: "fsub (3602879701896397 / 36028797018963968) (1080863910568919 / 4503599627370496) = - (5044031582654955 / 36028797018963968)"
  unfolding fsub_def
  by (subst double_small [where k = 3]) (simp_all add: rne_def Let_def)

lemma fl_37: "fadd (11 / 4) (- (5044031582654955 / 36028797018963968)) = 5877197513718497 / 2251799813685248"
  unfolding fadd_def
  by (subst double_big [where k = 1]) (simp_all add: rne_def Let_def)

lemma fl_38: "fmul 500 (11 / 4) = 1375"
  unfolding fmul_def
  by (subst double_big [where k = 10]) (simp_all add: rne_def Let_def)

lemma fl_39: "fmul (5877197513718497 / 2251799813685248) (8106479329266893 / 9007199254740992) = 5289477762346647 / 2251799813685248"
  unfolding fmul_def
  by (subst double_big [where k = 1]) (simp_all add: rne_def Let_def)

lemma fl_40: "fmul 500 (5289477762346647 / 2251799813685248) = 5165505627291647 / 4398046511104"
  unfolding fmul_def
  by (subst double_big [where k = 10]) (simp_all add: rne_def Let_def)

lemma fl_41: "fmul (5165505627291647 / 4398046511104) 1 = 5165505627291647 / 4398046511104"
  unfolding fmul_def
  by (subst double_big [where k = 10]) (simp_all add: rne_def Let_def)

lemma fl_42: "fdiv 1 1 = 1"
  unfolding fdiv_def
  by (subst double_big [where k = 0]) (simp_all add: rne_def Let_def)

lemma fl_43: "fmul (2206763817411543 / 1125899906842624) (8106479329266893 / 9007199254740992) = 7944349742681555 / 4503599627370496"
  unfolding fmul_def
  by (subst double_big [where k = 0]) (simp_all add: rne_def Let_def)

subsection \<open>Auxiliary facts\<close>

lemma double_13_10: "13 / 10 \<le> double (13 / 10)"
  by (simp add: fl_07)

lemma log_2_16: "log 2 16 = (4::real)"
proof -
  have "log 2 (2 ^ 4) = (4::real)"
    by (subst log_pow_cancel) simp_all
  then show ?thesis by simp
qed



lemma eMult_cases: "eMult us \<in> {double (9 / 10), 1, double (11 / 10)}"
  by (simp add: eMult_def)

lemma sm2_EF_floor: "double (13 / 10) \<le> sm2_EF (calculateSM2 c q)"
  by (simp add: calculateSM2_def Let_def)

lemma body_EF:
  "card_EF (fst (submitReview_body z clock store c q)) =
     max (fmul (sm2_EF (calculateSM2 c q)) (eMult (getUserStats z (clock 1) store))) (double (13 / 10))"
  by (simp add: submitReview_body_def Let_def)

lemma body_log_EF:
  "log_EF (snd (submitReview_body z clock store c q)) =
     max (fmul (sm2_EF (calculateSM2 c q)) (eMult (getUserStats z (clock 1) store))) (double (13 / 10))"
  by (simp add: submitReview_body_def Let_def)

lemma body_I:
  "card_I (fst (submitReview_body z clock store c q)) =
     (if sm2_n (calculateSM2 c q) > 2 \<and> q \<ge> 3
      then Math_round (fmul (fmul (real_of_int (card_I c)) (card_EF (fst (submitReview_body z clock store c q))))
             (rMult (calculateCardStats (clock 2) c (forgetRate (getUserStats z (clock 1) store)))))
      else if q < 3 then 1
      else sm2_I (calculateSM2 c q))"
  by (simp add: submitReview_body_def Let_def)

text \<open>
  \<open>setDate\<close> with an argument taken from \<open>getDate\<close> shifts the local time by whole days,
  whatever the calendar says.
\<close>

lemma setDate_getDate:
  "setDate z d (getDate z d' + k) =
     UTC z (LocalTime z d + (getDate z d' - getDate z d + k) * msPerDay)"
  by (simp add: setDate_def getDate_def algebra_simps)

lemma cutoff_30: "setDate z now (getDate z now - 30) = UTC z (LocalTime z now - 30 * msPerDay)"
  using setDate_getDate [of z now now "- 30"] by simp

lemma body_next:
  "nextReviewAt (fst (submitReview_body z clock store c q)) =
     Some (UTC z (LocalTime z (clock 4)
       + (getDate z (clock 3) - getDate z (clock 4) + card_I (fst (submitReview_body z clock store c q)))
         * msPerDay))"
  by (simp add: submitReview_body_def Let_def setDate_getDate)

lemma utcZone_simps: "LocalTime utcZone t = t" "UTC utcZone l = l"
  by (simp_all add: LocalTime_def UTC_def utcZone_def)

lemma sample_dates:
  "DateFromTime (100 * msPerDay + 3) = 11" "DateFromTime (100 * msPerDay + 4) = 11"
  by code_simp+



lemma ratio_unit:
  "0 \<le> fdiv (real (length (filter P xs))) (real (length xs))
   \<and> fdiv (real (length (filter P xs))) (real (length xs)) \<le> 1"
proof -
  have "length (filter P xs) \<le> length xs" by (rule length_filter_le)
  then have "0 \<le> real (length (filter P xs)) / real (length xs)
      \<and> real (length (filter P xs)) / real (length xs) \<le> 1"
    by (cases "xs = []") (simp_all add: divide_le_eq_1)
  then show ?thesis
    unfolding fdiv_def by (intro double_unit) simp_all
qed

lemma withP_set:
  "set (map (\<lambda>(i, c). (c, g i c)) (enumerate 0 xs)) = {(xs ! i, g i (xs ! i)) | i. i < length xs}"
  by (auto simp: in_set_enumerate_eq image_iff)

lemma getDueCards_set:
  "set (getDueCards z clock allCards store) =
     {x. isDue (clock 0) x \<and>
         (\<exists>i < length allCards. x = (allCards ! i,
            calculateCardStats (clock (i + 2)) (allCards ! i)
              (forgetRate (getUserStats z (clock 1) store))))}"
  unfolding getDueCards_def Let_def set_sort set_filter withP_set
  by auto

lemma isDue_iff:
  "isDue now x \<longleftrightarrow>
     nextReviewAt (fst x) = None \<or> (\<exists>d. nextReviewAt (fst x) = Some d \<and> d \<le> now)
     \<or> priorityScore (snd x) \<ge> 6 / 10"
  by (auto simp: isDue_def split: option.splits)

lemma getDueCards_sorted:
  "sorted_wrt (\<lambda>x y. priorityScore (snd x) \<ge> priorityScore (snd y))
     (getDueCards z clock allCards store)"
proof -
  have "sorted (map (\<lambda>x. - priorityScore (snd x)) (getDueCards z clock allCards store))"
    unfolding getDueCards_def Let_def by (rule sorted_sort_key)
  then show ?thesis
    by (simp add: sorted_map)
qed

lemma sample_due:
  "getDueCards utcZone sampleClock [lapsedCard, newCard] (Some sampleLogs)
   = [(lapsedCard, sentinel), (newCard, sentinel)]"
proof -
  have a: "calculateCardStats t lapsedCard fr = sentinel" for t fr
    by (simp add: calculateCardStats_def lapsedCard_def sentinel_def)
  have b: "calculateCardStats t newCard fr = sentinel" for t fr
    by (simp add: calculateCardStats_def newCard_def sentinel_def)
  have c: "isDue t (x, sentinel)" for t x
    by (simp add: isDue_def sentinel_def split: option.split)
  have d: "priorityScore sentinel = 100"
    by (simp add: sentinel_def)
  show ?thesis
    by (simp add: getDueCards_def Let_def enumerate_eq_zip a b c d upt_rec)
qed

lemma dstZone_cutoff:
  "UTC dstZone (LocalTime dstZone (120 * msPerDay) - 30 * msPerDay) = 90 * msPerDay - 3600000"
  by (simp add: dstZone_def LocalTime_def UTC_def msPerDay_def)

subsection \<open>The claims\<close>

text \<open>
  C1. For every card and every quality \<open>q < 3\<close>, \<open>calculateSM2\<close> returns \<open>n' = 0\<close> and
  \<open>I' = 1\<close>, and the ease factor is not reset: it is the updated value
  \<open>EF + (0.1 - delta * (0.08 + delta * 0.02))\<close> with \<open>delta = 5 - q\<close>, computed with the
  operations of doubles, raised to 1.3 when it is smaller.
\<close>

theorem calculateSM2_lapse:
  assumes "q < 3"
  shows "sm2_n (calculateSM2 c q) = 0
       \<and> sm2_I (calculateSM2 c q) = 1
       \<and> sm2_EF (calculateSM2 c q) =
           max (fadd (card_EF c)
                  (fsub (double (1 / 10))
                     (fmul (real_of_int (5 - q))
                        (fadd (double (8 / 100)) (fmul (real_of_int (5 - q)) (double (2 / 100)))))))
               (double (13 / 10))"
  using assms by (simp add: calculateSM2_def Let_def max_def)

theorem calculateSM2_lapse_witness:
  "(1::int) < 3
   \<and> sm2_n (calculateSM2 \<lparr>card_id = 1, deckId = 1, card_n = 4, card_I = 30, card_EF = 5 / 2,
        nextReviewAt = None, lastReviewAt = None, totalSuccesses = Some 4\<rparr> 1) = 0
   \<and> sm2_I (calculateSM2 \<lparr>card_id = 1, deckId = 1, card_n = 4, card_I = 30, card_EF = 5 / 2,
        nextReviewAt = None, lastReviewAt = None, totalSuccesses = Some 4\<rparr> 1) = 1
   \<and> sm2_EF (calculateSM2 \<lparr>card_id = 1, deckId = 1, card_n = 4, card_I = 30, card_EF = 5 / 2,
        nextReviewAt = None, lastReviewAt = None, totalSuccesses = Some 4\<rparr> 1)
        = 2206763817411543 / 2 ^ 50
   \<and> \<bar>2206763817411543 / 2 ^ 50 - 49 / 25\<bar> < (1 / 10 ^ 15 :: real)"
  using calculateSM2_lapse [of 1 "\<lparr>card_id = 1, deckId = 1, card_n = 4, card_I = 30, card_EF = 5 / 2,
        nextReviewAt = None, lastReviewAt = None, totalSuccesses = Some 4\<rparr>"]
  by (simp add: fl_01 fl_02 fl_03 fl_04 fl_05 fl_06 fl_07 fl_08 fl_09 fl_10 fl_11 fl_12 fl_13 fl_14 fl_15 fl_16 fl_17 fl_18 fl_19 fl_20 fl_21 fl_22 fl_23 fl_24 fl_25 fl_26 fl_27 fl_28 fl_29 fl_30 fl_31 fl_32 fl_33 fl_34 fl_35 fl_36 fl_37 fl_38 fl_39 fl_40 fl_41 fl_42 fl_43)

text \<open>
  C2. For every card and every quality \<open>q \<ge> 3\<close>, \<open>calculateSM2\<close> returns \<open>n' = n + 1\<close>, and
  the interval \<open>I' = 1\<close> when \<open>n' = 1\<close>, \<open>I' = 6\<close> when \<open>n' = 2\<close>, and
  \<open>I' = Math.round(I * EF)\<close> when \<open>n' \<ge> 3\<close>, where \<open>I * EF\<close> is the product of doubles.
\<close>

theorem calculateSM2_success:
  assumes "q \<ge> 3"
  shows "sm2_n (calculateSM2 c q) = card_n c + 1
       \<and> (sm2_n (calculateSM2 c q) = 1 \<longrightarrow> sm2_I (calculateSM2 c q) = 1)
       \<and> (sm2_n (calculateSM2 c q) = 2 \<longrightarrow> sm2_I (calculateSM2 c q) = 6)
       \<and> (sm2_n (calculateSM2 c q) \<ge> 3 \<longrightarrow>
            sm2_I (calculateSM2 c q) = Math_round (fmul (real_of_int (card_I c)) (card_EF c)))"
  using assms by (simp add: calculateSM2_def Let_def)

theorem calculateSM2_success_witness:
  "(3::int) \<ge> 3
   \<and> sm2_n (calculateSM2 card75 3) = 6
   \<and> sm2_n (calculateSM2 card75 3) \<ge> 3
   \<and> real_of_int (card_I card75) * card_EF card75 < 363 / 2
   \<and> fmul (real_of_int (card_I card75)) (card_EF card75) = 363 / 2
   \<and> sm2_I (calculateSM2 card75 3) = 182"
  using calculateSM2_success [of 3 card75]
  by (simp add: card75_def Math_round_def fl_01 fl_02 fl_03 fl_04 fl_05 fl_06 fl_07 fl_08 fl_09 fl_10 fl_11 fl_12 fl_13 fl_14 fl_15 fl_16 fl_17 fl_18 fl_19 fl_20 fl_21 fl_22 fl_23 fl_24 fl_25 fl_26 fl_27 fl_28 fl_29 fl_30 fl_31 fl_32 fl_33 fl_34 fl_35 fl_36 fl_37 fl_38 fl_39 fl_40 fl_41 fl_42 fl_43)

text \<open>
  C3. For every card with \<open>EF \<ge> 1.3\<close> and every quality \<open>q\<close> from 1 to 5, the ease factor
  after a review is at least 1.3: the one \<open>calculateSM2\<close> returns, and the one that
  \<open>submitReview\<close> writes to the card and to the log entry after it has applied the ease
  multiplier, which is 0.9, 1.0 or 1.1 (the doubles of these literals).
\<close>

theorem ease_factor_floor:
  assumes "card_EF c \<ge> 13 / 10" and "1 \<le> q" and "q \<le> 5"
  shows "sm2_EF (calculateSM2 c q) \<ge> 13 / 10
       \<and> eMult (getUserStats z (clock 1) store) \<in> {double (9 / 10), 1, double (11 / 10)}
       \<and> card_EF (fst (submitReview_body z clock store c q)) \<ge> 13 / 10
       \<and> log_EF (snd (submitReview_body z clock store c q)) \<ge> 13 / 10
       \<and> (\<forall>uiGrade r. submitReview z clock store c uiGrade = Some r \<longrightarrow>
             card_EF (fst r) \<ge> 13 / 10 \<and> log_EF (snd r) \<ge> 13 / 10)"
proof (intro conjI allI impI)
  have m: "13 / 10 \<le> max x (double (13 / 10))" for x
    using double_13_10 by (simp add: le_max_iff_disj)
  show "sm2_EF (calculateSM2 c q) \<ge> 13 / 10"
    using double_13_10 sm2_EF_floor [of c q] by (rule order_trans)
  show "eMult (getUserStats z (clock 1) store) \<in> {double (9 / 10), 1, double (11 / 10)}"
    by (rule eMult_cases)
  show "card_EF (fst (submitReview_body z clock store c q)) \<ge> 13 / 10"
    by (simp only: body_EF m)
  show "log_EF (snd (submitReview_body z clock store c q)) \<ge> 13 / 10"
    by (simp only: body_log_EF m)
next
  have m: "13 / 10 \<le> max x (double (13 / 10))" for x
    using double_13_10 by (simp add: le_max_iff_disj)
  fix uiGrade r
  assume "submitReview z clock store c uiGrade = Some r"
  then obtain q' where r: "r = submitReview_body z clock store c q'"
    by (auto simp: submitReview_def split: option.splits)
  show "card_EF (fst r) \<ge> 13 / 10"
    by (simp only: r body_EF m)
  show "log_EF (snd r) \<ge> 13 / 10"
    by (simp only: r body_log_EF m)
qed

theorem ease_factor_floor_witness:
  "card_EF matureCard \<ge> 13 / 10 \<and> (1::int) \<le> 1 \<and> (1::int) \<le> 5
   \<and> sm2_EF (calculateSM2 matureCard 1) \<ge> 13 / 10
   \<and> card_EF (fst (submitReview_body utcZone sampleClock (Some sampleLogs) matureCard 1)) \<ge> 13 / 10
   \<and> submitReview utcZone sampleClock (Some sampleLogs) matureCard 1
        = Some (submitReview_body utcZone sampleClock (Some sampleLogs) matureCard 1)"
proof -
  have a: "card_EF matureCard \<ge> 13 / 10"
    by (simp add: matureCard_def)
  have b: "submitReview utcZone sampleClock (Some sampleLogs) matureCard 1
        = Some (submitReview_body utcZone sampleClock (Some sampleLogs) matureCard 1)"
    by (simp add: submitReview_def qMap_def)
  from ease_factor_floor [OF a, of 1 utcZone sampleClock "Some sampleLogs"] a b
  show ?thesis
    by simp
qed





text \<open>
  C5, as the specification states it. A freshly created card \<open>{n: 0, I: 0, EF: 2.5}\<close>
  reviewed with grade 3 (\<open>q = 4\<close>) would get \<open>EF' = 2.6\<close> from \<open>calculateSM2\<close>, and
  \<open>nextReviewAt\<close> would be \<open>now\<close> plus one day. The ease factor is 2.5: for \<open>q = 4\<close> the
  update \<open>0.1 - delta * (0.08 + delta * 0.02)\<close> is 0, in doubles too. In \<open>dstZone\<close>, on the
  day the clocks are set back, \<open>nextReviewAt\<close> is \<open>now\<close> plus 25 hours. With \<open>sampleClock\<close>,
  where \<open>next\<close> is created a millisecond after \<open>now\<close>, \<open>nextReviewAt\<close> is a millisecond more
  than \<open>now\<close> plus one day.
\<close>

theorem first_review_counterexample:
  "qMap 3 = Some 4
   \<and> sm2_EF (calculateSM2 newCard 4) \<noteq> 26 / 10
   \<and> sm2_EF (calculateSM2 newCard 4) \<noteq> double (26 / 10)
   \<and> submitReview dstZone frozenClock (Some sampleLogs) newCard 3
        = Some (submitReview_body dstZone frozenClock (Some sampleLogs) newCard 4)
   \<and> nextReviewAt (fst (submitReview_body dstZone frozenClock (Some sampleLogs) newCard 4))
        \<noteq> Some (frozenClock 3 + 1 * msPerDay)
   \<and> submitReview utcZone sampleClock (Some sampleLogs) newCard 3
        = Some (submitReview_body utcZone sampleClock (Some sampleLogs) newCard 4)
   \<and> nextReviewAt (fst (submitReview_body utcZone sampleClock (Some sampleLogs) newCard 4))
        \<noteq> Some (sampleClock 3 + 1 * msPerDay)"
proof -
  have s: "calculateSM2 newCard 4 = \<lparr>sm2_n = 1, sm2_I = 1, sm2_EF = 5 / 2\<rparr>"
    by (simp add: calculateSM2_def Let_def newCard_def fl_01 fl_02 fl_03 fl_04 fl_05 fl_06 fl_07 fl_08 fl_09 fl_10 fl_11 fl_12 fl_13 fl_14 fl_15 fl_16 fl_17 fl_18 fl_19 fl_20 fl_21 fl_22 fl_23 fl_24 fl_25 fl_26 fl_27 fl_28 fl_29 fl_30 fl_31 fl_32 fl_33 fl_34 fl_35 fl_36 fl_37 fl_38 fl_39 fl_40 fl_41 fl_42 fl_43)
  have i: "card_I (fst (submitReview_body z clock store newCard 4)) = 1" for z clock store
    by (simp only: body_I s) simp
  have a: "nextReviewAt (fst (submitReview_body dstZone frozenClock (Some sampleLogs) newCard 4))
      = Some (frozenClock 3 + 1 * msPerDay + 3600000)"
    by (simp only: body_next i)
      (simp add: frozenClock_def dstZone_def LocalTime_def UTC_def msPerDay_def)
  have b: "nextReviewAt (fst (submitReview_body utcZone sampleClock (Some sampleLogs) newCard 4))
      = Some (sampleClock 3 + 1 * msPerDay + 1)"
    by (simp only: body_next i)
      (simp add: sampleClock_def utcZone_simps getDate_def sample_dates)
  have c: "double (26 / 10) = 5854679515581645 / 2 ^ 51"
    by (subst double_big [where k = 1]) (simp_all add: rne_def Let_def)
  show ?thesis
    by (simp only: a b s c) (simp add: qMap_def submitReview_def)
qed

text \<open>
  C5, amended. For a card with \<open>n = 0\<close>, \<open>I = 0\<close> and \<open>EF = 2.5\<close> reviewed with grade 3, which
  \<open>qMap\<close> takes to \<open>q = 4\<close>, \<open>calculateSM2\<close> yields \<open>n' = 1\<close>, \<open>I' = 1\<close> and \<open>EF' = 2.5\<close>;
  \<open>submitReview\<close> keeps the interval 1; \<open>nextReviewAt\<close> is the instant \<open>next\<close> moved to the
  calendar day after the day of \<open>now\<close>, in local time. When \<open>now\<close> and \<open>next\<close> are created at
  the same instant it is the same local time on the next calendar day, and that is \<open>now\<close>
  plus one day when the offset of local time from UTC is then what it is at \<open>now\<close>.
\<close>

theorem first_review:
  assumes "card_n c = 0" and "card_I c = 0" and "card_EF c = 5 / 2"
  shows "qMap 3 = Some 4
       \<and> calculateSM2 c 4 = \<lparr>sm2_n = 1, sm2_I = 1, sm2_EF = 5 / 2\<rparr>
       \<and> (\<exists>r. submitReview z clock store c 3 = Some r
              \<and> card_n (fst r) = 1 \<and> card_I (fst r) = 1
              \<and> lastReviewAt (fst r) = Some (clock 3)
              \<and> nextReviewAt (fst r) =
                  Some (UTC z (LocalTime z (clock 4)
                          + (getDate z (clock 3) - getDate z (clock 4) + 1) * msPerDay))
              \<and> (clock 4 = clock 3 \<longrightarrow>
                    nextReviewAt (fst r) = Some (UTC z (LocalTime z (clock 3) + 1 * msPerDay)))
              \<and> (clock 4 = clock 3 \<and> tzaLocal z (LocalTime z (clock 3) + 1 * msPerDay) = tzaUTC z (clock 3) \<longrightarrow>
                    nextReviewAt (fst r) = Some (clock 3 + 1 * msPerDay)))"
proof -
  let ?r = "submitReview_body z clock store c 4"
  have s: "calculateSM2 c 4 = \<lparr>sm2_n = 1, sm2_I = 1, sm2_EF = 5 / 2\<rparr>"
    by (simp add: calculateSM2_def Let_def assms fl_01 fl_02 fl_03 fl_04 fl_05 fl_06 fl_07 fl_08 fl_09 fl_10 fl_11 fl_12 fl_13 fl_14 fl_15 fl_16 fl_17 fl_18 fl_19 fl_20 fl_21 fl_22 fl_23 fl_24 fl_25 fl_26 fl_27 fl_28 fl_29 fl_30 fl_31 fl_32 fl_33 fl_34 fl_35 fl_36 fl_37 fl_38 fl_39 fl_40 fl_41 fl_42 fl_43)
  have r: "submitReview z clock store c 3 = Some ?r"
    by (simp add: submitReview_def qMap_def)
  have n: "card_n (fst ?r) = 1"
    by (simp only: submitReview_body_def Let_def s) simp
  have i: "card_I (fst ?r) = 1"
    by (simp only: body_I s) simp
  have l: "lastReviewAt (fst ?r) = Some (clock 3)"
    by (simp only: submitReview_body_def Let_def s) simp
  have x: "nextReviewAt (fst ?r) =
      Some (UTC z (LocalTime z (clock 4) + (getDate z (clock 3) - getDate z (clock 4) + 1) * msPerDay))"
    by (simp only: body_next i)
  have y: "nextReviewAt (fst ?r) = Some (UTC z (LocalTime z (clock 3) + 1 * msPerDay))"
    if "clock 4 = clock 3"
    by (simp only: x that) simp
  have w: "nextReviewAt (fst ?r) = Some (clock 3 + 1 * msPerDay)"
    if "clock 4 = clock 3 \<and> tzaLocal z (LocalTime z (clock 3) + 1 * msPerDay) = tzaUTC z (clock 3)"
  proof -
    from that have "UTC z (LocalTime z (clock 3) + 1 * msPerDay) = clock 3 + 1 * msPerDay"
      unfolding UTC_def by (simp add: LocalTime_def)
    with y that show ?thesis by simp
  qed
  from s r n i l x y w show ?thesis
    by (simp add: qMap_def)
qed

theorem first_review_witness:
  "card_n newCard = 0 \<and> card_I newCard = 0 \<and> card_EF newCard = 5 / 2
   \<and> frozenClock 4 = frozenClock 3
   \<and> tzaLocal utcZone (LocalTime utcZone (frozenClock 3) + 1 * msPerDay) = tzaUTC utcZone (frozenClock 3)
   \<and> calculateSM2 newCard 4 = \<lparr>sm2_n = 1, sm2_I = 1, sm2_EF = 5 / 2\<rparr>
   \<and> (\<exists>r. submitReview utcZone frozenClock (Some sampleLogs) newCard 3 = Some r
          \<and> card_I (fst r) = 1 \<and> nextReviewAt (fst r) = Some (101 * msPerDay))"
proof -
  have a: "card_n newCard = 0" "card_I newCard = 0" "card_EF newCard = 5 / 2"
    by (simp_all add: newCard_def)
  have b: "frozenClock 4 = frozenClock 3"
    by (simp add: frozenClock_def)
  have c: "tzaLocal utcZone (LocalTime utcZone (frozenClock 3) + 1 * msPerDay) = tzaUTC utcZone (frozenClock 3)"
    by (simp add: utcZone_def)
  have d: "frozenClock 3 + 1 * msPerDay = 101 * msPerDay"
    by (simp add: frozenClock_def)
  from first_review [OF a, of utcZone frozenClock "Some sampleLogs"] a b c d
  show ?thesis
    by auto
qed

text \<open>
  C6. For every card with \<open>n = 0\<close>, whatever its other fields are, \<open>calculateCardStats\<close>
  returns the fixed object with \<open>retention\<close> 0, \<open>forgetRisk\<close> 1.0 and \<open>priorityScore\<close> 100
  (and no other field).
\<close>

theorem new_card_sentinel:
  assumes "card_n c = 0"
  shows "calculateCardStats now c userForgetRate =
          \<lparr>retention = Some 0, retentionProbability = None, forgetRisk = 1,
            retentionScore = None, priorityScore = 100\<rparr>"
  using assms by (simp add: calculateCardStats_def)

theorem new_card_sentinel_witness:
  "card_n (matureCard\<lparr>card_n := 0\<rparr>) = 0
   \<and> priorityScore (calculateCardStats 5 (matureCard\<lparr>card_n := 0\<rparr>) (1 / 2)) = 100
   \<and> forgetRisk (calculateCardStats 5 (matureCard\<lparr>card_n := 0\<rparr>) (1 / 2)) = 1
   \<and> retention (calculateCardStats 5 (matureCard\<lparr>card_n := 0\<rparr>) (1 / 2)) = Some 0"
  using new_card_sentinel [of "matureCard\<lparr>card_n := 0\<rparr>" 5 "1 / 2"]
  by simp

text \<open>
  C7. Every element of the sequence that \<open>getDueCards\<close> returns is a card of the store
  with the statistics computed for it, and satisfies the inclusion predicate:
  \<open>nextReviewAt\<close> is absent, or \<open>nextReviewAt \<le> now\<close>, or \<open>priorityScore \<ge> 0.6\<close>. A card of
  the store whose \<open>nextReviewAt\<close> is absent is always in the sequence. The sequence is
  sorted by \<open>priorityScore\<close>, non-increasing.
\<close>

theorem getDueCards_due_sorted:
  "(\<forall>x \<in> set (getDueCards z clock allCards store).
      (nextReviewAt (fst x) = None \<or> (\<exists>d. nextReviewAt (fst x) = Some d \<and> d \<le> clock 0)
       \<or> priorityScore (snd x) \<ge> 6 / 10)
      \<and> (\<exists>i < length allCards. fst x = allCards ! i
            \<and> snd x = calculateCardStats (clock (i + 2)) (allCards ! i)
                        (forgetRate (getUserStats z (clock 1) store))))
   \<and> (\<forall>c \<in> set allCards. nextReviewAt c = None \<longrightarrow>
         c \<in> fst ` set (getDueCards z clock allCards store))
   \<and> sorted_wrt (\<lambda>x y. priorityScore (snd x) \<ge> priorityScore (snd y))
        (getDueCards z clock allCards store)"
proof (intro conjI ballI impI)
  fix x assume "x \<in> set (getDueCards z clock allCards store)"
  then have d: "isDue (clock 0) x"
    and i: "\<exists>i < length allCards. x = (allCards ! i,
            calculateCardStats (clock (i + 2)) (allCards ! i)
              (forgetRate (getUserStats z (clock 1) store)))"
    unfolding getDueCards_set by blast+
  from d show "nextReviewAt (fst x) = None \<or> (\<exists>d. nextReviewAt (fst x) = Some d \<and> d \<le> clock 0)
       \<or> priorityScore (snd x) \<ge> 6 / 10"
    by (simp only: isDue_iff)
  from i show "\<exists>i < length allCards. fst x = allCards ! i
            \<and> snd x = calculateCardStats (clock (i + 2)) (allCards ! i)
                        (forgetRate (getUserStats z (clock 1) store))"
    by auto
next
  fix c assume c: "c \<in> set allCards" and n: "nextReviewAt c = None"
  from c obtain i where i: "i < length allCards" "allCards ! i = c"
    by (auto simp: in_set_conv_nth)
  let ?x = "(c, calculateCardStats (clock (i + 2)) c (forgetRate (getUserStats z (clock 1) store)))"
  have "isDue (clock 0) ?x"
    using n by (simp add: isDue_def)
  with i have "?x \<in> set (getDueCards z clock allCards store)"
    unfolding getDueCards_set by auto
  then show "c \<in> fst ` set (getDueCards z clock allCards store)"
    by force
next
  show "sorted_wrt (\<lambda>x y. priorityScore (snd x) \<ge> priorityScore (snd y))
        (getDueCards z clock allCards store)"
    by (rule getDueCards_sorted)
qed

theorem getDueCards_due_sorted_witness:
  "newCard \<in> set [lapsedCard, newCard] \<and> nextReviewAt newCard = None
   \<and> newCard \<in> fst ` set (getDueCards utcZone sampleClock [lapsedCard, newCard] (Some sampleLogs))
   \<and> (lapsedCard, sentinel) \<in> set (getDueCards utcZone sampleClock [lapsedCard, newCard] (Some sampleLogs))
   \<and> priorityScore (snd (lapsedCard, sentinel)) \<ge> 6 / 10"
proof -
  have a: "newCard \<in> set [lapsedCard, newCard]" by simp
  have b: "nextReviewAt newCard = None" by (simp add: newCard_def)
  have c: "(lapsedCard, sentinel) \<in> set (getDueCards utcZone sampleClock [lapsedCard, newCard] (Some sampleLogs))"
    by (simp only: sample_due) simp
  have d: "priorityScore (snd (lapsedCard, sentinel)) \<ge> 6 / 10"
    by (simp add: sentinel_def)
  from getDueCards_due_sorted [of utcZone sampleClock "[lapsedCard, newCard]" "Some sampleLogs"] a b c d
  show ?thesis
    by blast
qed

text \<open>
  C8, as the specification states it. \<open>getUserStats\<close> would return 0 whenever no log
  entry is stamped within the 30 days that end at \<open>now\<close>. The index range of the code has
  no upper end: in UTC, on day 100, the one entry of the store is stamped on day 101, no
  entry lies within the 30 days before \<open>now\<close>, and the rate is 1. The lower end is \<open>now\<close>
  moved back 30 calendar days in local time: in \<open>dstZone\<close>, on day 120, an entry stamped 30
  days and 30 minutes before \<open>now\<close> is counted, and the rate is 1.
\<close>

theorem getUserStats_rate_counterexample:
  "filter (\<lambda>l. 100 * msPerDay - 30 * msPerDay \<le> reviewedAt l \<and> reviewedAt l \<le> 100 * msPerDay)
      [mkLog (101 * msPerDay) 1] = []
   \<and> forgetRate (getUserStats utcZone (100 * msPerDay) (Some [mkLog (101 * msPerDay) 1])) = 1
   \<and> filter (\<lambda>l. 120 * msPerDay - 30 * msPerDay \<le> reviewedAt l \<and> reviewedAt l \<le> 120 * msPerDay)
      [mkLog (90 * msPerDay - 1800000) 1] = []
   \<and> forgetRate (getUserStats dstZone (120 * msPerDay) (Some [mkLog (90 * msPerDay - 1800000) 1])) = 1"
proof -
  have a: "forgetRate (getUserStats utcZone (100 * msPerDay) (Some [mkLog (101 * msPerDay) 1])) = 1"
    by (simp add: getUserStats_def cutoff_30 utcZone_simps mkLog_def msPerDay_def Let_def fl_42)
  have b: "forgetRate (getUserStats dstZone (120 * msPerDay) (Some [mkLog (90 * msPerDay - 1800000) 1])) = 1"
    by (simp add: getUserStats_def cutoff_30 dstZone_cutoff mkLog_def Let_def fl_42)
  have c: "filter (\<lambda>l. 100 * msPerDay - 30 * msPerDay \<le> reviewedAt l \<and> reviewedAt l \<le> 100 * msPerDay)
      [mkLog (101 * msPerDay) 1] = []"
    by (simp add: mkLog_def msPerDay_def)
  have d: "filter (\<lambda>l. 120 * msPerDay - 30 * msPerDay \<le> reviewedAt l \<and> reviewedAt l \<le> 120 * msPerDay)
      [mkLog (90 * msPerDay - 1800000) 1] = []"
    by (simp add: mkLog_def msPerDay_def)
  from a b c d show ?thesis
    by blast
qed

text \<open>
  C8, amended. \<open>getUserStats\<close> resolves to the forgetting rate 0, with total 0, when no
  log entry is stamped at or after the cutoff: a value, not an error. The cutoff is \<open>now\<close>
  moved back 30 calendar days in local time, which is \<open>now\<close> minus 30 times 24 hours when
  the offset of local time from UTC is the same at both instants; the window has no upper
  end, so an entry stamped after \<open>now\<close> belongs to it. Otherwise the rate is the number of
  entries of the window with \<open>q < 3\<close> divided by the number of entries of the window, a
  quotient of doubles. The rate is always between 0 and 1. A failed read of the store
  also gives rate 0 and total 0.
\<close>

theorem getUserStats_rate:
  "(let cutoff = UTC z (LocalTime z now - 30 * msPerDay);
        window = filter (\<lambda>l. cutoff \<le> reviewedAt l) logs;
        rate = forgetRate (getUserStats z now (Some logs))
    in (window = [] \<longrightarrow> rate = 0 \<and> total (getUserStats z now (Some logs)) = 0)
     \<and> (window \<noteq> [] \<longrightarrow>
          rate = fdiv (real (length (filter (\<lambda>l. log_q l < 3) window))) (real (length window)))
     \<and> 0 \<le> rate \<and> rate \<le> 1
     \<and> (tzaLocal z (LocalTime z now - 30 * msPerDay) = tzaUTC z now \<longrightarrow>
          cutoff = now - 30 * msPerDay))
   \<and> getUserStats z now None = \<lparr>forgetRate = 0, total = 0\<rparr>"
proof -
  have "tzaLocal z (LocalTime z now - 30 * msPerDay) = tzaUTC z now \<longrightarrow>
      UTC z (LocalTime z now - 30 * msPerDay) = now - 30 * msPerDay"
    unfolding UTC_def by (simp add: LocalTime_def)
  with ratio_unit [of "\<lambda>l. log_q l < 3" "filter (\<lambda>l. UTC z (LocalTime z now - 30 * msPerDay) \<le> reviewedAt l) logs"]
  show ?thesis
    by (simp add: getUserStats_def cutoff_30 Let_def)
qed

theorem getUserStats_rate_witness:
  "filter (\<lambda>l. UTC utcZone (LocalTime utcZone (sampleClock 1) - 30 * msPerDay) \<le> reviewedAt l) sampleLogs \<noteq> []
   \<and> filter (\<lambda>l. UTC utcZone (LocalTime utcZone (sampleClock 1) - 30 * msPerDay) \<le> reviewedAt l) [mkLog 0 1] = []
   \<and> tzaLocal utcZone (LocalTime utcZone (sampleClock 1) - 30 * msPerDay) = tzaUTC utcZone (sampleClock 1)
   \<and> UTC utcZone (LocalTime utcZone (sampleClock 1) - 30 * msPerDay) = sampleClock 1 - 30 * msPerDay
   \<and> forgetRate (getUserStats utcZone (sampleClock 1) (Some sampleLogs)) = double (4 / 10)
   \<and> forgetRate (getUserStats utcZone (sampleClock 1) (Some [mkLog 0 1])) = 0"
proof -
  have a: "filter (\<lambda>l. UTC utcZone (LocalTime utcZone (sampleClock 1) - 30 * msPerDay) \<le> reviewedAt l) sampleLogs
      = [mkLog (75 * msPerDay) 1, mkLog (80 * msPerDay) 1,
         mkLog (90 * msPerDay) 4, mkLog (95 * msPerDay) 5, mkLog (99 * msPerDay) 3]"
    by (simp add: utcZone_simps sampleLogs_def sampleClock_def mkLog_def msPerDay_def)
  have b: "filter (\<lambda>l. UTC utcZone (LocalTime utcZone (sampleClock 1) - 30 * msPerDay) \<le> reviewedAt l) [mkLog 0 1] = []"
    by (simp add: utcZone_simps sampleClock_def mkLog_def msPerDay_def)
  have c: "tzaLocal utcZone (LocalTime utcZone (sampleClock 1) - 30 * msPerDay) = tzaUTC utcZone (sampleClock 1)"
    by (simp add: utcZone_def)
  have d: "fdiv 2 5 = double (4 / 10)"
    by (simp add: fl_01 fl_02 fl_03 fl_04 fl_05 fl_06 fl_07 fl_08 fl_09 fl_10 fl_11 fl_12 fl_13 fl_14 fl_15 fl_16 fl_17 fl_18 fl_19 fl_20 fl_21 fl_22 fl_23 fl_24 fl_25 fl_26 fl_27 fl_28 fl_29 fl_30 fl_31 fl_32 fl_33 fl_34 fl_35 fl_36 fl_37 fl_38 fl_39 fl_40 fl_41 fl_42 fl_43)
  note t1 = getUserStats_rate [of utcZone "sampleClock 1" sampleLogs, unfolded Let_def a]
  note t2 = getUserStats_rate [of utcZone "sampleClock 1" "[mkLog 0 1]", unfolded Let_def b]
  have e: "forgetRate (getUserStats utcZone (sampleClock 1) (Some sampleLogs)) = double (4 / 10)"
    using t1 by (simp add: mkLog_def d)
  have f: "forgetRate (getUserStats utcZone (sampleClock 1) (Some [mkLog 0 1])) = 0"
    using t2 by simp
  have g: "UTC utcZone (LocalTime utcZone (sampleClock 1) - 30 * msPerDay) = sampleClock 1 - 30 * msPerDay"
    using t1 c by simp
  have h: "filter (\<lambda>l. UTC utcZone (LocalTime utcZone (sampleClock 1) - 30 * msPerDay) \<le> reviewedAt l) sampleLogs \<noteq> []"
    by (simp only: a) simp
  from b c e f g h show ?thesis
    by blast
qed

text \<open>
  C9, as the specification states it. Every card would get an object with the four
  fields \<open>retentionProbability\<close>, \<open>forgetRisk\<close>, \<open>retentionScore\<close> and \<open>priorityScore\<close>, where
  \<open>retentionScore = min(100, log2(1 + successes) * EF * 10)\<close> and \<open>successes\<close> is
  \<open>totalSuccesses\<close> unless that is absent. A card with \<open>n = 0\<close> gets an object without
  \<open>retentionProbability\<close> and \<open>retentionScore\<close>; and for a card with \<open>n = 2\<close> and
  \<open>totalSuccesses = 0\<close> the score is computed from \<open>n\<close>, not from \<open>totalSuccesses\<close>.
\<close>

theorem cardStats_fields_counterexample:
  "retentionProbability (calculateCardStats 0 newCard 0) = None
   \<and> retentionScore (calculateCardStats 0 newCard 0) = None
   \<and> totalSuccesses (matureCard\<lparr>totalSuccesses := Some 0\<rparr>) = Some 0
   \<and> retentionScore (calculateCardStats 0 (matureCard\<lparr>totalSuccesses := Some 0\<rparr>) 0)
       \<noteq> Some (min 100 (log 2 (1 + real 0) * card_EF matureCard * 10))"
proof -
  have "log 2 3 > (0::real)" by simp
  then have "log 2 3 \<noteq> (0::real)" by (rule less_imp_neq [symmetric])
  then show ?thesis
    by (simp add: calculateCardStats_def newCard_def matureCard_def Let_def min_def)
qed

text \<open>
  C9, amended. For every card with \<open>n \<noteq> 0\<close>, \<open>calculateCardStats\<close> returns an object with
  the fields \<open>retentionProbability\<close>, \<open>forgetRisk\<close>, \<open>retentionScore\<close> and \<open>priorityScore\<close>,
  where \<open>retentionScore = min(100, log2(1 + successes) * EF * 10)\<close> and \<open>successes\<close> is
  \<open>totalSuccesses\<close>, or \<open>n\<close> when \<open>totalSuccesses\<close> is absent or 0.
\<close>

theorem cardStats_fields:
  assumes "card_n c \<noteq> 0"
  shows "retentionProbability (calculateCardStats now c userForgetRate) \<noteq> None
       \<and> retentionScore (calculateCardStats now c userForgetRate) =
           Some (min 100 (log 2 (1 + real (case totalSuccesses c of
                                             None \<Rightarrow> card_n c
                                           | Some s \<Rightarrow> if s = 0 then card_n c else s))
                          * card_EF c * 10))"
  using assms by (simp add: calculateCardStats_def Let_def split: option.split)

theorem cardStats_fields_witness:
  "card_n matureCard \<noteq> 0
   \<and> retentionProbability (calculateCardStats 0 matureCard 0) \<noteq> None
   \<and> retentionScore (calculateCardStats 0 matureCard 0) = Some 100"
proof -
  have a: "card_n matureCard \<noteq> 0" by (simp add: matureCard_def)
  from cardStats_fields [OF a, of 0 0] a show ?thesis
    by (simp add: matureCard_def log_2_16)
qed

text \<open>
  C10. For every card with \<open>n = 0\<close>, \<open>submitReview\<close> computes \<open>rMult = 1.0\<close>: the object
  that \<open>calculateCardStats\<close> returns for it has no \<open>retentionScore\<close>, so neither
  \<open>cs.retentionScore < 40\<close> nor \<open>cs.retentionScore > 80\<close> holds. The grade plays no role
  in \<open>rMult\<close>.
\<close>

theorem new_card_rMult:
  assumes "card_n c = 0"
  shows "retentionScore (calculateCardStats now c userForgetRate) = None
       \<and> \<not> js_lt (retentionScore (calculateCardStats now c userForgetRate)) 40
       \<and> \<not> js_gt (retentionScore (calculateCardStats now c userForgetRate)) 80
       \<and> rMult (calculateCardStats now c userForgetRate) = 1"
  using assms by (simp add: calculateCardStats_def rMult_def)

theorem new_card_rMult_witness:
  "card_n newCard = 0 \<and> rMult (calculateCardStats (sampleClock 2) newCard (2 / 5)) = 1"
  using new_card_rMult [of newCard "sampleClock 2" "2 / 5"]
  by (simp add: newCard_def)

end
